theory Spec2Isabelle
  imports Complex_Main "HOL-Library.AList" "HOL-Library.Multiset"
begin

section \<open>JavaScript numbers\<close>

text \<open>
  A JavaScript \<open>number\<close> is modelled as a real or one of the three special values of
  IEEE 754 that the engine's arithmetic can produce: the two infinities and NaN. The
  operations \<open>jadd\<close>, \<open>jmul\<close>, \<open>jdiv\<close> and their like return the exact result of
  finite operands; the operations of the second part round it to binary64. The sign of
  zero is outside the model: a non-zero value divided by zero takes the sign of the
  dividend.
\<close>

datatype jsnum = Num real | PInf | NInf | NaN

fun jneg :: "jsnum \<Rightarrow> jsnum" where
  "jneg (Num a) = Num (- a)"
| "jneg PInf = NInf"
| "jneg NInf = PInf"
| "jneg NaN = NaN"

fun jadd :: "jsnum \<Rightarrow> jsnum \<Rightarrow> jsnum" where
  "jadd NaN _ = NaN"
| "jadd _ NaN = NaN"
| "jadd (Num a) (Num b) = Num (a + b)"
| "jadd PInf NInf = NaN"
| "jadd NInf PInf = NaN"
| "jadd PInf _ = PInf"
| "jadd NInf _ = NInf"
| "jadd (Num a) PInf = PInf"
| "jadd (Num a) NInf = NInf"

definition jsub :: "jsnum \<Rightarrow> jsnum \<Rightarrow> jsnum" where
  "jsub a b = jadd a (jneg b)"

fun jsign :: "jsnum \<Rightarrow> int" where
  "jsign (Num a) = (if a < 0 then - 1 else if a = 0 then 0 else 1)"
| "jsign PInf = 1"
| "jsign NInf = - 1"
| "jsign NaN = 0"

definition jinf :: "int \<Rightarrow> jsnum" where
  \<comment> \<open>the infinity of a given non-zero sign\<close>
  "jinf s = (if s < 0 then NInf else PInf)"

fun jmul :: "jsnum \<Rightarrow> jsnum \<Rightarrow> jsnum" where
  "jmul NaN _ = NaN"
| "jmul _ NaN = NaN"
| "jmul (Num a) (Num b) = Num (a * b)"
| "jmul a b = (if jsign a * jsign b = 0 then NaN else jinf (jsign a * jsign b))"

fun jdiv :: "jsnum \<Rightarrow> jsnum \<Rightarrow> jsnum" where
  "jdiv NaN _ = NaN"
| "jdiv _ NaN = NaN"
| "jdiv (Num a) (Num b) =
     (if b = 0 then (if a = 0 then NaN else jinf (jsign (Num a))) else Num (a / b))"
| "jdiv (Num a) _ = Num 0"
| "jdiv a (Num b) = jinf (if b < 0 then - jsign a else jsign a)"
| "jdiv _ _ = NaN"

fun jgt :: "jsnum \<Rightarrow> jsnum \<Rightarrow> bool" where
  \<comment> \<open>the operator \<open>>\<close>: false as soon as one side is NaN\<close>
  "jgt NaN _ = False"
| "jgt _ NaN = False"
| "jgt (Num a) (Num b) = (a > b)"
| "jgt PInf PInf = False"
| "jgt PInf _ = True"
| "jgt NInf _ = False"
| "jgt (Num a) NInf = True"
| "jgt (Num a) PInf = False"

fun jeq :: "jsnum \<Rightarrow> jsnum \<Rightarrow> bool" where
  \<comment> \<open>the operator \<open>===\<close> on numbers: NaN equals nothing\<close>
  "jeq NaN _ = False"
| "jeq _ NaN = False"
| "jeq a b = (a = b)"

definition jge :: "jsnum \<Rightarrow> jsnum \<Rightarrow> bool" where
  "jge a b = (jgt a b \<or> jeq a b)"


definition jle :: "jsnum \<Rightarrow> jsnum \<Rightarrow> bool" where
  "jle a b = jge b a"

fun Math_exp :: "jsnum \<Rightarrow> jsnum" where
  "Math_exp (Num a) = Num (exp a)"
| "Math_exp PInf = PInf"
| "Math_exp NInf = Num 0"
| "Math_exp NaN = NaN"

fun Math_sqrt :: "jsnum \<Rightarrow> jsnum" where
  "Math_sqrt (Num a) = (if a < 0 then NaN else Num (sqrt a))"
| "Math_sqrt PInf = PInf"
| "Math_sqrt NInf = NaN"
| "Math_sqrt NaN = NaN"

definition Math_pow2 :: "jsnum \<Rightarrow> jsnum" where
  \<comment> \<open>\<open>Math.pow(x, 2)\<close>\<close>
  "Math_pow2 x = jmul x x"

fun Math_max :: "jsnum \<Rightarrow> jsnum \<Rightarrow> jsnum" where
  "Math_max NaN _ = NaN"
| "Math_max _ NaN = NaN"
| "Math_max a b = (if jgt b a then b else a)"

definition is_finite :: "jsnum \<Rightarrow> bool" where
  "is_finite x = (case x of Num _ \<Rightarrow> True | _ \<Rightarrow> False)"

subsection \<open>Rounding to binary64\<close>

text \<open>
  The stability of a connection is a value that the engine computes and stores, and what
  can be said of it depends on the rounding of each operation. Its arithmetic is therefore
  modelled in binary64: an operation returns the exact result rounded to the nearest
  number of 53 significant bits, ties to the even one, with the subnormal numbers below
  \<open>2^-1022\<close> and overflow to an infinity from \<open>2^1024\<close> on. \<open>Math.exp\<close>, which the
  language leaves to the implementation up to an approximation, is taken as the correctly
  rounded exponential.
\<close>

definition round_even :: "real \<Rightarrow> int" where
  \<comment> \<open>the nearest integer, the even one of two at equal distance\<close>
  "round_even q =
     (let f = \<lfloor>q\<rfloor>
      in if q - of_int f < 1 / 2 then f
         else if 1 / 2 < q - of_int f then f + 1
         else if even f then f else f + 1)"

definition exponent64 :: "real \<Rightarrow> int" where
  \<comment> \<open>the binary exponent of a positive real, not below that of the normal numbers\<close>
  "exponent64 x = max \<lfloor>log 2 x\<rfloor> (- 1022)"

definition ulp64 :: "real \<Rightarrow> real" where
  \<comment> \<open>the distance of neighbouring binary64 numbers at a positive real\<close>
  "ulp64 x = 2 powr (of_int (exponent64 x) - 52)"

definition round_mag :: "real \<Rightarrow> real" where
  \<comment> \<open>a positive real rounded to a multiple of its unit\<close>
  "round_mag x = of_int (round_even (x / ulp64 x)) * ulp64 x"

definition round64 :: "real \<Rightarrow> real" where
  "round64 x = (if x = 0 then 0 else if 0 < x then round_mag x else - round_mag (- x))"

definition fl :: "real \<Rightarrow> jsnum" where
  \<comment> \<open>the binary64 number for an exact result\<close>
  "fl x =
     (let r = round64 x
      in if 2 ^ 1024 \<le> r then PInf else if r \<le> - (2 ^ 1024) then NInf else Num r)"

fun jfl :: "jsnum \<Rightarrow> jsnum" where
  "jfl (Num x) = fl x"
| "jfl PInf = PInf"
| "jfl NInf = NInf"
| "jfl NaN = NaN"

definition fadd :: "jsnum \<Rightarrow> jsnum \<Rightarrow> jsnum" where
  "fadd a b = jfl (jadd a b)"

definition fsub :: "jsnum \<Rightarrow> jsnum \<Rightarrow> jsnum" where
  "fsub a b = jfl (jsub a b)"

definition fmul :: "jsnum \<Rightarrow> jsnum \<Rightarrow> jsnum" where
  "fmul a b = jfl (jmul a b)"

definition fdiv :: "jsnum \<Rightarrow> jsnum \<Rightarrow> jsnum" where
  "fdiv a b = jfl (jdiv a b)"

fun Math_exp64 :: "jsnum \<Rightarrow> jsnum" where
  "Math_exp64 (Num a) = fl (exp a)"
| "Math_exp64 PInf = PInf"
| "Math_exp64 NInf = Num 0"
| "Math_exp64 NaN = NaN"

section \<open>Vectors\<close>

text \<open>
  Modelled from the spec: the class \<open>Vector\<close> comes from the package \<open>vectorious\<close>,
  which is not part of this repository. The spec uses it as the vector of the feature
  list with the dot product, the Euclidean norm and the componentwise difference, each
  a pure function of its operands.
\<close>

type_synonym Vector = "jsnum list"

definition Vector_new :: "jsnum list \<Rightarrow> Vector" where
  "Vector_new xs = xs"

definition Vector_dot :: "Vector \<Rightarrow> Vector \<Rightarrow> jsnum" where
  "Vector_dot v1 v2 = foldl jadd (Num 0) (map2 jmul v1 v2)"

definition Vector_norm :: "Vector \<Rightarrow> jsnum" where
  "Vector_norm v = Math_sqrt (Vector_dot v v)"

definition Vector_subtract :: "Vector \<Rightarrow> Vector \<Rightarrow> Vector" where
  "Vector_subtract v1 v2 = map2 jsub v1 v2"

section \<open>The data model\<close>

record CodeSoul =
  soul_id :: string
  code :: string
  hash :: string
  eigenvalues :: "jsnum list"
  vector :: Vector
  timestamp :: nat
  source :: "string option"

record WormholeConnection =
  conn_from :: CodeSoul
  conn_to :: CodeSoul
  similarity :: jsnum
  distance :: jsnum
  energy :: jsnum
  stability :: jsnum
  resonance :: jsnum

text \<open>
  The result of the external hasher, \<open>ProteinHashResult\<close>: the two fields the engine
  reads. The hasher itself is a parameter of the engine; a call that throws is a left
  value.
\<close>

record ProteinHashResult =
  phash :: string
  eigenTop :: "jsnum list"

datatype error = HasherError string

type_synonym ProteinHasher = "string \<Rightarrow> error + ProteinHashResult"

text \<open>
  A JavaScript \<open>Map\<close> enumerates its entries in the order of first insertion, and
  \<open>set\<close> on a key already present replaces the value in place: an association list
  with \<^const>\<open>AList.update\<close> for \<open>set\<close> and \<^const>\<open>map_of\<close> for \<open>get\<close>.
\<close>

record WormholeEngine =
  souls :: "(string \<times> CodeSoul) list"
  connections :: "(string \<times> WormholeConnection list) list"
  dimensionality :: nat

definition WormholeEngine_new :: WormholeEngine where
  "WormholeEngine_new = \<lparr>souls = [], connections = [], dimensionality = 10\<rparr>"

section \<open>The engine\<close>

function normalize_loop :: "jsnum list \<Rightarrow> nat \<Rightarrow> nat \<Rightarrow> jsnum list \<Rightarrow> jsnum list" where
  "normalize_loop evs d i normalized =
     (if i < min (length evs) d
      then normalize_loop evs d (Suc i) (normalized[i := evs ! i])
      else normalized)"
  by pat_completeness auto
termination
  by (relation "measure (\<lambda>(evs, d, i, normalized). min (length evs) d - i)") auto

definition normalizeEigenvalues :: "WormholeEngine \<Rightarrow> jsnum list \<Rightarrow> jsnum list" where
  "normalizeEigenvalues e evs =
     normalize_loop evs (dimensionality e) 0 (replicate (dimensionality e) (Num 0))"

text \<open>
  \<open>Array.prototype.sort\<close> with a comparison function: the sort is stable, and an
  element moves behind another one exactly when the comparison of the two is positive
  (a NaN comparison counts as zero). The model is the stable insertion sort.
\<close>

fun insort_cmp :: "('a \<Rightarrow> 'a \<Rightarrow> jsnum) \<Rightarrow> 'a \<Rightarrow> 'a list \<Rightarrow> 'a list" where
  "insort_cmp cmp x [] = [x]"
| "insort_cmp cmp x (y # ys) =
     (if jgt (cmp x y) (Num 0) then y # insort_cmp cmp x ys else x # y # ys)"

definition Array_sort :: "('a \<Rightarrow> 'a \<Rightarrow> jsnum) \<Rightarrow> 'a list \<Rightarrow> 'a list" where
  "Array_sort cmp xs = foldr (insort_cmp cmp) xs []"

definition euclideanDistance :: "Vector \<Rightarrow> Vector \<Rightarrow> jsnum" where
  "euclideanDistance v1 v2 = Vector_norm (Vector_subtract v1 v2)"

definition cosineSimilarity :: "Vector \<Rightarrow> Vector \<Rightarrow> jsnum" where
  "cosineSimilarity v1 v2 =
     (let dot = Vector_dot v1 v2;
          norm1 = Vector_norm v1;
          norm2 = Vector_norm v2
      in if jeq norm1 (Num 0) \<or> jeq norm2 (Num 0) then Num 0
         else jdiv dot (jmul norm1 norm2))"

definition wormholeEnergy :: "jsnum \<Rightarrow> jsnum \<Rightarrow> jsnum" where
  "wormholeEnergy d s =
     (if jeq s (Num 0) then PInf else jdiv (jmul d d) s)"

definition wormholeStability :: "jsnum \<Rightarrow> jsnum" where
  \<comment> \<open>in binary64; the literal \<open>0.8\<close> is the binary64 number nearest to \<open>8 / 10\<close>\<close>
  "wormholeStability s =
     (let k = Num 10; x0 = fl 0.8
      in fdiv (Num 1) (fadd (Num 1) (Math_exp64 (fmul (jneg k) (fsub s x0)))))"

definition harmonicRatios :: "jsnum list" where
  "harmonicRatios = [Num 1, Num 2, Num 0.5, Num 1.5, Num 0.667, Num 1.333]"

fun maxResonance_loop :: "jsnum \<Rightarrow> jsnum list \<Rightarrow> jsnum \<Rightarrow> jsnum" where
  "maxResonance_loop ratio [] maxResonance = maxResonance"
| "maxResonance_loop ratio (harmonic # hs) maxResonance =
     (let r = Math_exp (jneg (Math_pow2 (jsub ratio harmonic)))
      in maxResonance_loop ratio hs (Math_max maxResonance r))"

function resonance_loop :: "jsnum list \<Rightarrow> jsnum list \<Rightarrow> nat \<Rightarrow> jsnum \<Rightarrow> jsnum" where
  "resonance_loop eigen1 eigen2 i resonanceSum =
     (if i < min (length eigen1) (length eigen2)
      then (let baseFreq = Num 432;
                freq1 = jmul baseFreq (eigen1 ! i);
                freq2 = jmul baseFreq (eigen2 ! i);
                ratio = jdiv freq2 freq1;
                maxResonance = maxResonance_loop ratio harmonicRatios (Num 0)
            in resonance_loop eigen1 eigen2 (Suc i) (jadd resonanceSum maxResonance))
      else resonanceSum)"
  by pat_completeness auto
termination
  by (relation "measure (\<lambda>(eigen1, eigen2, i, s). min (length eigen1) (length eigen2) - i)")
    auto

definition harmonicResonance :: "jsnum list \<Rightarrow> jsnum list \<Rightarrow> jsnum" where
  "harmonicResonance eigen1 eigen2 =
     jdiv (resonance_loop eigen1 eigen2 0 (Num 0))
          (Num (real (min (length eigen1) (length eigen2))))"

definition make_connection :: "CodeSoul \<Rightarrow> CodeSoul \<Rightarrow> WormholeConnection" where
  \<comment> \<open>the metrics of one pair and the connection object built from them\<close>
  "make_connection soul otherSoul =
     (let d = euclideanDistance (vector soul) (vector otherSoul);
          s = cosineSimilarity (vector soul) (vector otherSoul);
          en = wormholeEnergy d s;
          st = wormholeStability s;
          r = harmonicResonance (eigenvalues soul) (eigenvalues otherSoul)
      in \<lparr>conn_from = soul, conn_to = otherSoul, similarity = s, distance = d,
          energy = en, stability = st, resonance = r\<rparr>)"

fun findWormholes_loop ::
  "CodeSoul \<Rightarrow> (string \<times> CodeSoul) list \<Rightarrow> WormholeConnection list \<Rightarrow> WormholeConnection list"
where
  "findWormholes_loop soul [] conns = conns"
| "findWormholes_loop soul ((otherId, otherSoul) # rest) conns =
     (if otherId = soul_id soul then findWormholes_loop soul rest conns
      else (let connection = make_connection soul otherSoul
            in if jgt (similarity connection) (Num 0.7)
               then findWormholes_loop soul rest (conns @ [connection])
               else findWormholes_loop soul rest conns))"

definition findWormholes :: "CodeSoul \<Rightarrow> WormholeEngine \<Rightarrow> WormholeConnection list \<times> WormholeEngine" where
  "findWormholes soul e =
     (let conns = findWormholes_loop soul (souls e) [];
          sorted = Array_sort (\<lambda>a b. jsub (similarity b) (similarity a)) conns
      in (sorted, e\<lparr>connections := AList.update (soul_id soul) sorted (connections e)\<rparr>))"

definition soulId_of :: "string option \<Rightarrow> ProteinHashResult \<Rightarrow> string" where
  \<comment> \<open>\<open>id || result.phash\<close>: the hash when the identifier is absent or the empty string\<close>
  "soulId_of ident result =
     (case ident of
        None \<Rightarrow> phash result
      | Some i \<Rightarrow> if i = [] then phash result else i)"

definition make_soul ::
  "WormholeEngine \<Rightarrow> ProteinHashResult \<Rightarrow> nat \<Rightarrow> string \<Rightarrow> string option \<Rightarrow> string option
     \<Rightarrow> CodeSoul"
where
  \<comment> \<open>the soul \<open>addCodeSoul\<close> builds from the hasher's result\<close>
  "make_soul e result now c ident src =
     (let soulId = soulId_of ident result;
          evs = normalizeEigenvalues e (eigenTop result);
          v = Vector_new evs
      in \<lparr>soul_id = soulId, code = c, hash = phash result, eigenvalues = evs,
          vector = v, timestamp = now, source = src\<rparr>)"

definition addCodeSoul ::
  "ProteinHasher \<Rightarrow> nat \<Rightarrow> string \<Rightarrow> string option \<Rightarrow> string option \<Rightarrow> WormholeEngine
     \<Rightarrow> (error + CodeSoul) \<times> WormholeEngine"
where
  "addCodeSoul hasher now c ident src e =
     (case hasher c of
        Inl err \<Rightarrow> (Inl err, e)
      | Inr result \<Rightarrow>
          (let soul = make_soul e result now c ident src;
               e1 = e\<lparr>souls := AList.update (soul_id soul) soul (souls e)\<rparr>;
               e2 = snd (findWormholes soul e1)
           in (Inr soul, e2)))"

text \<open>A sequence of insert calls, from the engine the constructor builds.\<close>

type_synonym insert_call = "nat \<times> string \<times> string option \<times> string option"

definition insert_step :: "ProteinHasher \<Rightarrow> WormholeEngine \<Rightarrow> insert_call \<Rightarrow> WormholeEngine" where
  "insert_step hasher e call =
     (case call of (now, c, ident, src) \<Rightarrow> snd (addCodeSoul hasher now c ident src e))"

definition insert_all :: "ProteinHasher \<Rightarrow> WormholeEngine \<Rightarrow> insert_call list \<Rightarrow> WormholeEngine" where
  "insert_all hasher e calls = foldl (insert_step hasher) e calls"

definition call_id :: "ProteinHasher \<Rightarrow> insert_call \<Rightarrow> string option" where
  \<comment> \<open>the identifier an insert call stores under; none when the hasher fails\<close>
  "call_id hasher call =
     (case call of (now, c, ident, src) \<Rightarrow>
        (case hasher c of Inl err \<Rightarrow> None | Inr result \<Rightarrow> Some (soulId_of ident result)))"

text \<open>
  The list the spec describes for one insertion, before sorting: every other item of the
  corpus, in enumeration order, paired with the new item, kept when the similarity
  exceeds 0.7.
\<close>

definition admitted :: "CodeSoul \<Rightarrow> (string \<times> CodeSoul) list \<Rightarrow> WormholeConnection list" where
  "admitted soul corpus =
     filter (\<lambda>c. jgt (similarity c) (Num 0.7))
       (map (\<lambda>p. make_connection soul (snd p))
          (filter (\<lambda>p. fst p \<noteq> soul_id soul) corpus))"

text \<open>A hasher, souls and calls used to run the engine on concrete inputs.\<close>

definition example_hasher :: ProteinHasher where
  "example_hasher c =
     (if c = ''fail'' then Inl (HasherError ''no hash'')
      else if c = ''zero'' then Inr \<lparr>phash = c, eigenTop = [Num 0, Num 0]\<rparr>
      else Inr \<lparr>phash = c, eigenTop = [Num 1]\<rparr>)"

definition unit_vector :: "jsnum list" where
  "unit_vector = [Num 1, Num 0, Num 0, Num 0, Num 0, Num 0, Num 0, Num 0, Num 0, Num 0]"

definition zero_vector :: "jsnum list" where
  "zero_vector = [Num 0, Num 0, Num 0, Num 0, Num 0, Num 0, Num 0, Num 0, Num 0, Num 0]"

definition example_soul :: "string \<Rightarrow> nat \<Rightarrow> CodeSoul" where
  "example_soul name t =
     \<lparr>soul_id = name, code = name, hash = name, eigenvalues = unit_vector,
      vector = unit_vector, timestamp = t, source = None\<rparr>"

definition example_calls :: "insert_call list" where
  "example_calls = [(10, ''a'', None, None), (20, ''b'', None, None)]"

definition example_connection :: WormholeConnection where
  "example_connection = make_connection (example_soul ''b'' 20) (example_soul ''a'' 10)"

definition example_engine_a :: WormholeEngine where
  "example_engine_a =
     \<lparr>souls = [(''a'', example_soul ''a'' 10)], connections = [(''a'', [])],
      dimensionality = 10\<rparr>"

definition example_engine :: WormholeEngine where
  "example_engine =
     \<lparr>souls = [(''a'', example_soul ''a'' 10), (''b'', example_soul ''b'' 20)],
      connections = [(''a'', []), (''b'', [example_connection])],
      dimensionality = 10\<rparr>"

text \<open>The invariants of the reachable engines.\<close>

definition threshold_inv :: "WormholeEngine \<Rightarrow> bool" where
  "threshold_inv e =
     (\<forall>(k, cs) \<in> set (connections e). \<forall>c \<in> set cs. jgt (similarity c) (Num 0.7))"

definition index_inv :: "WormholeEngine \<Rightarrow> bool" where
  "index_inv e =
     (fst ` set (connections e) = fst ` set (souls e)
      \<and> (\<forall>(k, s) \<in> set (souls e). soul_id s = k)
      \<and> (\<forall>(k, cs) \<in> set (connections e). \<forall>c \<in> set cs.
            soul_id (conn_from c) = k \<and> soul_id (conn_to c) \<noteq> k))"

section \<open>The feature normaliser\<close>

declare normalize_loop.simps [simp del]

lemma length_normalize_loop: "length (normalize_loop evs d i n) = length n"
  by (induction evs d i n rule: normalize_loop.induct)
     (subst normalize_loop.simps, simp)

lemma nth_normalize_loop:
  "j < length n \<Longrightarrow> length n = d \<Longrightarrow>
   normalize_loop evs d i n ! j = (if i \<le> j \<and> j < length evs then evs ! j else n ! j)"
proof (induction evs d i n rule: normalize_loop.induct)
  case (1 evs d i normalized)
  show ?case
  proof (cases "i < min (length evs) d")
    case True
    then show ?thesis
      using 1 by (subst normalize_loop.simps) (auto simp: nth_list_update)
  next
    case False
    then show ?thesis
      using 1 by (subst normalize_loop.simps) auto
  qed
qed

lemma normalizeEigenvalues_eq:
  "normalizeEigenvalues e fs =
     take (dimensionality e) fs @ replicate (dimensionality e - length fs) (Num 0)"
  unfolding normalizeEigenvalues_def
  by (rule nth_equalityI)
     (auto simp: length_normalize_loop nth_normalize_loop nth_append)

text \<open>
  C9. For a feature list of any length, \<open>normalizeEigenvalues\<close> returns a list of
  length exactly D (the engine's dimensionality): the first \<open>min (length fs) D\<close>
  values of the input in their positions, then zeros. There is no failing branch, and
  the empty input gives D zeros.
\<close>

theorem normalizeEigenvalues_fixed_length:
  "length (normalizeEigenvalues e fs) = dimensionality e
   \<and> normalizeEigenvalues e fs =
       take (dimensionality e) fs @ replicate (dimensionality e - length fs) (Num 0)
   \<and> length (take (dimensionality e) fs) = min (length fs) (dimensionality e)
   \<and> normalizeEigenvalues e [] = replicate (dimensionality e) (Num 0)"
  by (simp add: normalizeEigenvalues_eq)

section \<open>Arithmetic with the special values\<close>

lemma jadd_NaN_right [simp]: "jadd x NaN = NaN"
  by (cases x) simp_all

lemma jmul_NaN_right [simp]: "jmul x NaN = NaN"
  by (cases x) simp_all

lemma jdiv_NaN_right [simp]: "jdiv x NaN = NaN"
  by (cases x) simp_all

lemma Math_max_NaN_right [simp]: "Math_max x NaN = NaN"
  by (cases x) simp_all

lemma jgt_NaN_right [simp]: "jgt x NaN = False"
  by (cases x) simp_all

lemma jeq_Num [simp]: "jeq (Num a) x = (x = Num a)"
  by (cases x) auto

section \<open>Rounding to binary64\<close>

lemma round_even_of_int [simp]: "round_even (of_int n) = n"
  by (simp add: round_even_def)






lemma ulp64_nonneg [simp]: "0 \<le> ulp64 x"
  by (simp add: ulp64_def)







lemma ulp64_scale52: "2 powr 52 * ulp64 x = 2 powr of_int (exponent64 x)"
proof -
  have "2 powr 52 * ulp64 x = 2 powr (52 + (of_int (exponent64 x) - 52))"
    unfolding ulp64_def by (simp only: powr_add)
  also have "52 + (real_of_int (exponent64 x) - 52) = of_int (exponent64 x)"
    by simp
  finally show ?thesis .
qed






lemma round_mag_pow2:
  assumes "- 1022 \<le> k"
  shows "round_mag (2 powr of_int k) = 2 powr of_int k"
proof -
  have "\<lfloor>log 2 (2 powr of_int k)\<rfloor> = k"
    by simp
  then have e: "exponent64 (2 powr of_int k) = k"
    using assms by (simp add: exponent64_def)
  have "2 powr of_int k / ulp64 (2 powr of_int k) = 2 powr 52"
    by (simp add: ulp64_def e powr_diff [symmetric])
  then have q: "2 powr of_int k / ulp64 (2 powr of_int k) = of_int (2 ^ 52)"
    by simp
  have "round_mag (2 powr of_int k) = 2 powr 52 * ulp64 (2 powr of_int k)"
    unfolding round_mag_def q round_even_of_int by simp
  also have "\<dots> = 2 powr of_int (exponent64 (2 powr of_int k))"
    by (rule ulp64_scale52)
  finally show ?thesis
    by (simp only: e)
qed

lemma round64_pow2: "- 1022 \<le> k \<Longrightarrow> round64 (2 powr of_int k) = 2 powr of_int k"
  by (simp add: round64_def round_mag_pow2)

lemma round64_zero [simp]: "round64 0 = 0"
  by (simp add: round64_def)

lemma round64_one [simp]: "round64 1 = 1"
  using round64_pow2 [of 0] by simp

lemma round64_two [simp]: "round64 2 = 2"
  using round64_pow2 [of 1] by simp

lemma round64_half [simp]: "round64 (1 / 2) = 1 / 2"
  using round64_pow2 [of "- 1"] by (simp add: powr_minus field_simps)

section \<open>Stability\<close>

lemma jle_simps [simp]:
  "jle (Num a) (Num b) = (a \<le> b)"
  "jle (Num a) PInf" "jle NInf (Num a)" "jle NInf PInf" "jle PInf PInf" "jle NInf NInf"
  "\<not> jle PInf (Num a)" "\<not> jle (Num a) NInf" "\<not> jle PInf NInf"
  "\<not> jle NaN x" "\<not> jle x NaN"
  by (cases x; auto simp: jle_def jge_def)+



lemma fl_not_NaN [simp]: "fl x \<noteq> NaN"
  by (simp add: fl_def Let_def)

lemma fl_zero [simp]: "fl 0 = Num 0"
  by (simp add: fl_def)

lemma fl_one [simp]: "fl 1 = Num 1"
  by (simp add: fl_def)

lemma fl_two [simp]: "fl 2 = Num 2"
  by (simp add: fl_def)

lemma fl_half [simp]: "fl (1 / 2) = Num (1 / 2)"
  by (simp add: fl_def)

lemma jle_NInf_fl [simp]: "jle NInf (fl x)"
  by (simp add: fl_def Let_def)

lemma jle_fl_PInf [simp]: "jle (fl x) PInf"
  by (simp add: fl_def Let_def)























lemma round64_pow2_16 [simp]: "round64 65536 = 65536"
  using round64_pow2 [of 16] by simp











lemma round64_8 [simp]: "round64 8 = 8"
  using round64_pow2 [of 3] by simp

lemma round64_32 [simp]: "round64 32 = 32"
  using round64_pow2 [of 5] by simp

lemma round64_64 [simp]: "round64 64 = 64"
  using round64_pow2 [of 6] by simp

lemma round64_512 [simp]: "round64 512 = 512"
  using round64_pow2 [of 9] by simp










section \<open>Failure of the hasher\<close>

text \<open>
  C6. When the hasher fails on the submitted code, \<open>addCodeSoul\<close> returns that error
  and the engine it was called on, unchanged: no soul is stored and no entry is added
  to the connection index.
\<close>

theorem addCodeSoul_hasher_failure:
  "hasher c = Inl err \<Longrightarrow> addCodeSoul hasher now c ident src e = (Inl err, e)"
  by (simp add: addCodeSoul_def)

theorem addCodeSoul_hasher_failure_witness:
  "example_hasher ''fail'' = Inl (HasherError ''no hash'')
   \<and> addCodeSoul example_hasher 0 ''fail'' None None WormholeEngine_new
       = (Inl (HasherError ''no hash''), WormholeEngine_new)"
  using addCodeSoul_hasher_failure [of example_hasher "''fail''" "HasherError ''no hash''"
      0 None None WormholeEngine_new]
  by (simp add: example_hasher_def)

section \<open>Harmonic resonance\<close>

declare resonance_loop.simps [simp del]

lemma foldl_jadd_NaN [simp]: "foldl jadd NaN xs = NaN"
  by (induction xs) simp_all

lemma maxResonance_loop_NaN [simp]: "maxResonance_loop r hs NaN = NaN"
  by (induction hs) (simp_all add: Let_def)

lemma maxResonance_loop_NaN_ratio: "hs \<noteq> [] \<Longrightarrow> maxResonance_loop NaN hs m = NaN"
  by (cases hs) (simp_all add: Let_def jsub_def Math_pow2_def)

lemma resonance_loop_upt:
  "resonance_loop e1 e2 i s =
     foldl jadd s
       (map (\<lambda>j. maxResonance_loop (jdiv (jmul (Num 432) (e2 ! j)) (jmul (Num 432) (e1 ! j)))
                   harmonicRatios (Num 0))
            [i..<min (length e1) (length e2)])"
proof (induction e1 e2 i s rule: resonance_loop.induct)
  case (1 e1 e2 i s)
  show ?case
  proof (cases "i < min (length e1) (length e2)")
    case True
    then show ?thesis
      using 1 by (subst resonance_loop.simps) (simp add: Let_def upt_conv_Cons)
  next
    case False
    then show ?thesis
      by (subst resonance_loop.simps) auto
  qed
qed

lemma resonance_loop_NaN_coordinate:
  assumes "j < min (length e1) (length e2)" and "i \<le> j"
    and "e1 ! j = Num 0" and "e2 ! j = Num 0"
  shows "resonance_loop e1 e2 i s = NaN"
proof -
  let ?f = "\<lambda>j. maxResonance_loop (jdiv (jmul (Num 432) (e2 ! j)) (jmul (Num 432) (e1 ! j)))
                   harmonicRatios (Num 0)"
  let ?n = "min (length e1) (length e2)"
  have split: "[i..<?n] = [i..<j] @ j # [Suc j..<?n]"
    using assms(1,2) by (metis le_add_diff_inverse less_imp_le_nat upt_add_eq_append upt_conv_Cons)
  have "?f j = NaN"
    using assms(3,4) by (simp add: harmonicRatios_def Let_def jsub_def Math_pow2_def)
  then show ?thesis
    by (simp add: resonance_loop_upt split)
qed

lemma harmonicResonance_empty: "harmonicResonance [] [] = NaN"
  by (simp add: harmonicResonance_def resonance_loop_upt)

lemma harmonicResonance_zero_pair: "harmonicResonance [Num 0] [Num 0] = NaN"
  by (simp add: harmonicResonance_def resonance_loop_NaN_coordinate [of 0])

lemma harmonicResonance_padded:
  "harmonicResonance (normalizeEigenvalues WormholeEngine_new [Num 1])
                     (normalizeEigenvalues WormholeEngine_new [Num 1]) = NaN"
  by (simp add: harmonicResonance_def resonance_loop_NaN_coordinate [of 1]
      normalizeEigenvalues_eq WormholeEngine_new_def)

section \<open>One insertion\<close>

lemma findWormholes_loop_eq:
  "findWormholes_loop soul ss acc =
     acc @ filter (\<lambda>c. jgt (similarity c) (Num 0.7))
            (map (\<lambda>p. make_connection soul (snd p))
               (filter (\<lambda>p. fst p \<noteq> soul_id soul) ss))"
  by (induction ss arbitrary: acc) (auto simp: Let_def)

lemma set_insort_cmp: "set (insort_cmp cmp x ys) = insert x (set ys)"
  by (induction ys) auto

lemma set_Array_sort: "set (Array_sort cmp xs) = set xs"
  unfolding Array_sort_def by (induction xs) (simp_all add: set_insort_cmp)

lemma mset_insort_cmp: "mset (insort_cmp cmp x ys) = add_mset x (mset ys)"
  by (induction ys) auto

lemma mset_Array_sort: "mset (Array_sort cmp xs) = mset xs"
  unfolding Array_sort_def by (induction xs) (simp_all add: mset_insort_cmp)

lemma set_update_subset: "set (AList.update k v al) \<subseteq> insert (k, v) (set al)"
  by (induction al) auto

lemma souls_findWormholes [simp]: "souls (snd (findWormholes soul e)) = souls e"
  by (simp add: findWormholes_def Let_def)

lemma dimensionality_findWormholes [simp]:
  "dimensionality (snd (findWormholes soul e)) = dimensionality e"
  by (simp add: findWormholes_def Let_def)

lemma connections_findWormholes:
  "connections (snd (findWormholes soul e)) =
     AList.update (soul_id soul) (fst (findWormholes soul e)) (connections e)"
  by (simp add: findWormholes_def Let_def)

lemma set_fst_findWormholes:
  "set (fst (findWormholes soul e)) = set (findWormholes_loop soul (souls e) [])"
  by (simp add: findWormholes_def Let_def set_Array_sort)

lemma addCodeSoul_Inr:
  assumes "hasher c = Inr result"
  shows "addCodeSoul hasher now c ident src e =
     (Inr (make_soul e result now c ident src),
      snd (findWormholes (make_soul e result now c ident src)
             (e\<lparr>souls := AList.update (soul_id (make_soul e result now c ident src))
                             (make_soul e result now c ident src) (souls e)\<rparr>)))"
  using assms by (simp add: addCodeSoul_def Let_def)

lemma insert_all_snoc:
  "insert_all hasher e (calls @ [call]) = insert_step hasher (insert_all hasher e calls) call"
  by (simp add: insert_all_def)

lemma insert_all_Nil [simp]: "insert_all hasher e [] = e"
  by (simp add: insert_all_def)

text \<open>One insert call either fails in the hasher, or stores one soul and one list.\<close>

lemma insert_step_cases:
  obtains (failed) "insert_step hasher e call = e"
  | (stored) soul where
      "souls (insert_step hasher e call) = AList.update (soul_id soul) soul (souls e)"
      "connections (insert_step hasher e call) =
         AList.update (soul_id soul)
           (fst (findWormholes soul (e\<lparr>souls := AList.update (soul_id soul) soul (souls e)\<rparr>)))
           (connections e)"
      "dimensionality (insert_step hasher e call) = dimensionality e"
proof (cases call)
  case (fields now c ident src)
  show ?thesis
  proof (cases "hasher c")
    case (Inl err)
    then have "insert_step hasher e call = e"
      by (simp add: insert_step_def fields addCodeSoul_def)
    then show ?thesis by (rule failed)
  next
    case (Inr result)
    let ?soul = "make_soul e result now c ident src"
    have step: "insert_step hasher e call =
        snd (findWormholes ?soul (e\<lparr>souls := AList.update (soul_id ?soul) ?soul (souls e)\<rparr>))"
      using Inr by (simp add: insert_step_def fields addCodeSoul_Inr)
    show ?thesis
      by (rule stored [of ?soul]) (simp_all add: step connections_findWormholes)
  qed
qed

lemma insert_all_invariant:
  assumes "P e0"
    and "\<And>e call. P e \<Longrightarrow> P (insert_step hasher e call)"
  shows "P (insert_all hasher e0 calls)"
  using assms by (induction calls rule: rev_induct) (simp_all add: insert_all_snoc)

section \<open>A concrete run\<close>

lemma Vector_norm_unit: "Vector_norm unit_vector = Num 1"
  by (simp add: Vector_norm_def Vector_dot_def unit_vector_def)

lemma cosineSimilarity_unit: "cosineSimilarity unit_vector unit_vector = Num 1"
  by (simp add: cosineSimilarity_def Vector_norm_unit) (simp add: Vector_dot_def unit_vector_def)

lemma similarity_example_connection: "similarity example_connection = Num 1"
  by (simp add: example_connection_def make_connection_def Let_def example_soul_def
      cosineSimilarity_unit)

lemma soul_id_example [simp]: "soul_id (example_soul name t) = name"
  by (simp add: example_soul_def)

lemma normalize_example:
  "dimensionality e = 10 \<Longrightarrow> normalizeEigenvalues e [Num 1] = unit_vector"
  "dimensionality e = 10 \<Longrightarrow> normalizeEigenvalues e [Num 0, Num 0] = zero_vector"
  by (simp_all add: normalizeEigenvalues_eq unit_vector_def zero_vector_def eval_nat_numeral)

lemma make_soul_example:
  "dimensionality e = 10 \<Longrightarrow>
   make_soul e \<lparr>phash = name, eigenTop = [Num 1]\<rparr> t name None None = example_soul name t"
  by (simp add: make_soul_def soulId_of_def Let_def normalize_example Vector_new_def
      example_soul_def)

lemma Array_sort_small [simp]: "Array_sort cmp [] = []" "Array_sort cmp [x] = [x]"
  by (simp_all add: Array_sort_def)

lemma example_add_a:
  "addCodeSoul example_hasher 10 ''a'' None None WormholeEngine_new
     = (Inr (example_soul ''a'' 10), example_engine_a)"
  by (simp add: addCodeSoul_def example_hasher_def Let_def make_soul_example
      WormholeEngine_new_def findWormholes_def example_engine_a_def)

lemma example_add_b:
  "addCodeSoul example_hasher 20 ''b'' None None example_engine_a
     = (Inr (example_soul ''b'' 20), example_engine)"
  by (simp add: addCodeSoul_def example_hasher_def Let_def make_soul_example
      findWormholes_def example_engine_a_def example_engine_def
      example_connection_def [symmetric] similarity_example_connection)

lemma example_run:
  "insert_all example_hasher WormholeEngine_new example_calls = example_engine"
  by (simp add: insert_all_def example_calls_def insert_step_def example_add_a example_add_b)

section \<open>The admission threshold\<close>

lemma conn_from_make_connection [simp]: "conn_from (make_connection a b) = a"
  by (simp add: make_connection_def Let_def)

lemma conn_to_make_connection [simp]: "conn_to (make_connection a b) = b"
  by (simp add: make_connection_def Let_def)

lemma findWormholes_loop_admitted: "findWormholes_loop soul ss [] = admitted soul ss"
  by (simp add: findWormholes_loop_eq admitted_def)

lemma set_fst_findWormholes_admitted:
  "set (fst (findWormholes soul e)) = set (admitted soul (souls e))"
  by (simp add: set_fst_findWormholes findWormholes_loop_admitted)

lemma jgt_imp_not_jle: "jgt a b \<Longrightarrow> \<not> jle a b"
  by (cases a; cases b) (auto simp: jle_def jge_def)

lemma threshold_inv_step:
  assumes "threshold_inv e"
  shows "threshold_inv (insert_step hasher e call)"
proof (cases rule: insert_step_cases [of hasher e call])
  case failed
  with assms show ?thesis by simp
next
  case (stored soul)
  let ?e1 = "e\<lparr>souls := AList.update (soul_id soul) soul (souls e)\<rparr>"
  have new: "\<forall>c \<in> set (fst (findWormholes soul ?e1)). jgt (similarity c) (Num 0.7)"
    by (simp add: set_fst_findWormholes_admitted admitted_def)
  show ?thesis
    unfolding threshold_inv_def stored(2)
    using set_update_subset [of "soul_id soul" "fst (findWormholes soul ?e1)" "connections e"]
      new assms
    by (fastforce simp: threshold_inv_def)
qed

lemma threshold_inv_insert_all:
  "threshold_inv (insert_all hasher WormholeEngine_new calls)"
  by (rule insert_all_invariant)
     (simp_all add: threshold_inv_def WormholeEngine_new_def threshold_inv_step [unfolded threshold_inv_def])

text \<open>
  C3. In every engine reached from the empty one by a sequence of insert calls, every
  connection of every stored connection list has similarity strictly greater than 0.7,
  and so none has similarity less than or equal to 0.7.
\<close>

theorem stored_similarity_above_threshold:
  assumes "(k, cs) \<in> set (connections (insert_all hasher WormholeEngine_new calls))"
    and "c \<in> set cs"
  shows "jgt (similarity c) (Num 0.7) \<and> \<not> jle (similarity c) (Num 0.7)"
proof -
  have "jgt (similarity c) (Num 0.7)"
    using threshold_inv_insert_all [of hasher calls] assms
    by (auto simp: threshold_inv_def)
  then show ?thesis
    by (simp add: jgt_imp_not_jle)
qed

theorem stored_similarity_above_threshold_witness:
  "(''b'', [example_connection])
      \<in> set (connections (insert_all example_hasher WormholeEngine_new example_calls))
   \<and> example_connection \<in> set [example_connection]
   \<and> jgt (similarity example_connection) (Num 0.7)
   \<and> \<not> jle (similarity example_connection) (Num 0.7)"
proof -
  have 1: "(''b'', [example_connection])
      \<in> set (connections (insert_all example_hasher WormholeEngine_new example_calls))"
    by (simp add: example_run example_engine_def)
  have 2: "example_connection \<in> set [example_connection]"
    by simp
  from stored_similarity_above_threshold [OF 1 2] 1 2 show ?thesis
    by blast
qed

section \<open>Keys and endpoints of the connection index\<close>

lemma admitted_endpoints:
  assumes "c \<in> set (admitted soul corpus)"
    and "\<forall>(k, s) \<in> set corpus. soul_id s = k"
  shows "conn_from c = soul \<and> soul_id (conn_to c) \<noteq> soul_id soul"
  using assms by (auto simp: admitted_def)

lemma update_all:
  "\<forall>(k, v) \<in> set al. P k v \<Longrightarrow> P k0 v0 \<Longrightarrow> \<forall>(k, v) \<in> set (AList.update k0 v0 al). P k v"
  by (induction al) auto

lemma index_inv_step:
  assumes "index_inv e"
  shows "index_inv (insert_step hasher e call)"
proof (cases rule: insert_step_cases [of hasher e call])
  case failed
  with assms show ?thesis by simp
next
  case (stored soul)
  let ?ss = "AList.update (soul_id soul) soul (souls e)"
  let ?e1 = "e\<lparr>souls := ?ss\<rparr>"
  let ?cs = "fst (findWormholes soul ?e1)"
  have keys: "fst ` set (AList.update (soul_id soul) ?cs (connections e)) = fst ` set ?ss"
    using assms by (simp add: dom_update index_inv_def)
  have souls_ok: "\<forall>(k, s) \<in> set ?ss. soul_id s = k"
    using assms by (intro update_all) (simp_all add: index_inv_def)
  have new: "\<forall>c \<in> set ?cs. soul_id (conn_from c) = soul_id soul
                           \<and> soul_id (conn_to c) \<noteq> soul_id soul"
    using admitted_endpoints [OF _ souls_ok]
    by (simp add: set_fst_findWormholes_admitted)
  have conns_ok: "\<forall>(k, cs) \<in> set (AList.update (soul_id soul) ?cs (connections e)).
      \<forall>c \<in> set cs. soul_id (conn_from c) = k \<and> soul_id (conn_to c) \<noteq> k"
    using assms new by (intro update_all) (simp_all add: index_inv_def)
  show ?thesis
    unfolding index_inv_def stored(1,2)
    using keys souls_ok conns_ok by (intro conjI)
qed

lemma index_inv_insert_all: "index_inv (insert_all hasher WormholeEngine_new calls)"
proof (rule insert_all_invariant)
  show "index_inv WormholeEngine_new"
    by (simp add: index_inv_def WormholeEngine_new_def)
qed (rule index_inv_step)

text \<open>
  C10. After any sequence of insert calls the identifiers keyed in the connection index
  are those keyed in the corpus, and a connection stored under an identifier leaves the
  item of that identifier and arrives at an item of another identifier.
\<close>

theorem index_keys_and_endpoints:
  "fst ` set (connections (insert_all hasher WormholeEngine_new calls))
     = fst ` set (souls (insert_all hasher WormholeEngine_new calls))
   \<and> ((k, cs) \<in> set (connections (insert_all hasher WormholeEngine_new calls)) \<and> c \<in> set cs
        \<longrightarrow> soul_id (conn_from c) = k \<and> soul_id (conn_to c) \<noteq> k)"
  using index_inv_insert_all [of hasher calls]
  by (auto simp: index_inv_def)

theorem index_keys_and_endpoints_witness:
  "fst ` set (connections (insert_all example_hasher WormholeEngine_new example_calls))
     = {''a'', ''b''}
   \<and> fst ` set (souls (insert_all example_hasher WormholeEngine_new example_calls))
     = {''a'', ''b''}
   \<and> (''b'', [example_connection])
        \<in> set (connections (insert_all example_hasher WormholeEngine_new example_calls))
   \<and> example_connection \<in> set [example_connection]
   \<and> soul_id (conn_from example_connection) = ''b''
   \<and> soul_id (conn_to example_connection) \<noteq> ''b''"
proof -
  have 1: "(''b'', [example_connection])
      \<in> set (connections (insert_all example_hasher WormholeEngine_new example_calls))"
    by (simp add: example_run example_engine_def)
  have 2: "example_connection \<in> set [example_connection]"
    by simp
  have 3: "fst ` set (souls (insert_all example_hasher WormholeEngine_new example_calls))
     = {''a'', ''b''}"
    by (simp add: example_run example_engine_def)
  from index_keys_and_endpoints
    [of example_hasher example_calls "''b''" "[example_connection]" example_connection]
    1 2 3
  show ?thesis
    by simp
qed

lemma addCodeSoul_connections:
  assumes "addCodeSoul hasher now c ident src e = (Inr soul, e')"
  shows "connections e' =
     AList.update (soul_id soul)
       (fst (findWormholes soul (e\<lparr>souls := AList.update (soul_id soul) soul (souls e)\<rparr>)))
       (connections e)"
    and "souls e' = AList.update (soul_id soul) soul (souls e)"
  using assms
  by (auto simp: addCodeSoul_def Let_def connections_findWormholes split: sum.splits)

text \<open>
  C4. An insert call that stores an item under an identifier not yet in the corpus leaves
  the connection list (and the item) of every identifier already there as it was: the
  connections found by the insertion are recorded under the new identifier only.
\<close>

theorem fresh_insert_keeps_other_lists:
  assumes "addCodeSoul hasher now c ident src e = (Inr soul, e')"
    and "soul_id soul \<notin> fst ` set (souls e)"
    and "k \<in> fst ` set (souls e)"
  shows "map_of (connections e') k = map_of (connections e) k
         \<and> map_of (souls e') k = map_of (souls e) k"
proof -
  have "k \<noteq> soul_id soul"
    using assms(2,3) by blast
  then show ?thesis
    by (simp add: addCodeSoul_connections [OF assms(1)] update_conv')
qed

theorem fresh_insert_keeps_other_lists_witness:
  "addCodeSoul example_hasher 20 ''b'' None None example_engine_a
     = (Inr (example_soul ''b'' 20), example_engine)
   \<and> soul_id (example_soul ''b'' 20) \<notin> fst ` set (souls example_engine_a)
   \<and> ''a'' \<in> fst ` set (souls example_engine_a)
   \<and> map_of (connections example_engine) ''a'' = Some []
   \<and> map_of (connections example_engine_a) ''a'' = Some []
   \<and> map_of (souls example_engine) ''a'' = map_of (souls example_engine_a) ''a''"
proof -
  have 1: "soul_id (example_soul ''b'' 20) \<notin> fst ` set (souls example_engine_a)"
    by (simp add: example_engine_a_def)
  have 2: "''a'' \<in> fst ` set (souls example_engine_a)"
    by (simp add: example_engine_a_def)
  have 3: "map_of (connections example_engine_a) ''a'' = Some []"
    by (simp add: example_engine_a_def)
  from fresh_insert_keeps_other_lists [OF example_add_b 1 2] example_add_b 1 2 3
  show ?thesis
    by simp
qed

section \<open>The sorted connection list\<close>

lemma jsub_positive_imp_jge: "jgt (jsub b a) (Num 0) \<Longrightarrow> jge b a"
  by (cases a; cases b) (auto simp: jge_def jsub_def)

lemma jsub_not_positive_imp_jge:
  "a \<noteq> NaN \<Longrightarrow> b \<noteq> NaN \<Longrightarrow> \<not> jgt (jsub b a) (Num 0) \<Longrightarrow> jge a b"
  by (cases a; cases b) (auto simp: jge_def jsub_def)

lemma jge_trans: "jge a b \<Longrightarrow> jge b c \<Longrightarrow> jge a c"
  by (cases a; cases b; cases c) (auto simp: jge_def)

lemma jsub_self_not_positive: "\<not> jgt (jsub a a) (Num 0)"
  by (cases a) (auto simp: jsub_def)

lemma jgt_not_NaN: "jgt a b \<Longrightarrow> a \<noteq> NaN"
  by (cases a) auto

lemma sorted_insort_cmp_similarity:
  assumes "sorted_wrt (\<lambda>a b. jge (similarity a) (similarity b)) ys"
    and "similarity x \<noteq> NaN" and "\<forall>y \<in> set ys. similarity y \<noteq> NaN"
  shows "sorted_wrt (\<lambda>a b. jge (similarity a) (similarity b))
           (insort_cmp (\<lambda>a b. jsub (similarity b) (similarity a)) x ys)"
  using assms
proof (induction ys)
  case Nil
  then show ?case by simp
next
  case (Cons y ys)
  show ?case
  proof (cases "jgt (jsub (similarity y) (similarity x)) (Num 0)")
    case True
    then have "jge (similarity y) (similarity x)"
      by (rule jsub_positive_imp_jge)
    with True Cons show ?thesis
      by (auto simp: set_insort_cmp)
  next
    case False
    then have xy: "jge (similarity x) (similarity y)"
      using Cons.prems by (intro jsub_not_positive_imp_jge) auto
    have "\<forall>z \<in> set ys. jge (similarity x) (similarity z)"
      using xy Cons.prems(1) by (auto intro: jge_trans)
    with False xy Cons.prems(1) show ?thesis
      by simp
  qed
qed

lemma sorted_Array_sort_similarity:
  assumes "\<forall>x \<in> set xs. similarity x \<noteq> NaN"
  shows "sorted_wrt (\<lambda>a b. jge (similarity a) (similarity b))
           (Array_sort (\<lambda>a b. jsub (similarity b) (similarity a)) xs)"
  using assms
proof (induction xs)
  case Nil
  then show ?case by simp
next
  case (Cons x xs)
  have "Array_sort (\<lambda>a b. jsub (similarity b) (similarity a)) (x # xs) =
      insort_cmp (\<lambda>a b. jsub (similarity b) (similarity a)) x
        (Array_sort (\<lambda>a b. jsub (similarity b) (similarity a)) xs)"
    by (simp add: Array_sort_def)
  with Cons show ?case
    by (simp add: sorted_insort_cmp_similarity set_Array_sort)
qed

lemma filter_insort_cmp_similarity:
  "filter (\<lambda>c. similarity c = v) (insort_cmp (\<lambda>a b. jsub (similarity b) (similarity a)) x ys)
     = filter (\<lambda>c. similarity c = v) (x # ys)"
proof (induction ys)
  case Nil
  show ?case by simp
next
  case (Cons y ys)
  show ?case
  proof (cases "jgt (jsub (similarity y) (similarity x)) (Num 0)")
    case True
    then have "similarity y \<noteq> similarity x"
      using jsub_self_not_positive [of "similarity x"] by auto
    with True Cons show ?thesis
      by auto
  next
    case False
    then show ?thesis by simp
  qed
qed

lemma filter_Array_sort_similarity:
  "filter (\<lambda>c. similarity c = v) (Array_sort (\<lambda>a b. jsub (similarity b) (similarity a)) xs)
     = filter (\<lambda>c. similarity c = v) xs"
proof (induction xs)
  case Nil
  show ?case by simp
next
  case (Cons x xs)
  have "Array_sort (\<lambda>a b. jsub (similarity b) (similarity a)) (x # xs) =
      insort_cmp (\<lambda>a b. jsub (similarity b) (similarity a)) x
        (Array_sort (\<lambda>a b. jsub (similarity b) (similarity a)) xs)"
    by (simp add: Array_sort_def)
  with Cons show ?case
    by (simp add: filter_insort_cmp_similarity)
qed

lemma fst_findWormholes:
  "fst (findWormholes soul e) =
     Array_sort (\<lambda>a b. jsub (similarity b) (similarity a)) (admitted soul (souls e))"
  by (simp add: findWormholes_def Let_def findWormholes_loop_admitted)

lemma admitted_not_NaN: "\<forall>c \<in> set (admitted soul corpus). similarity c \<noteq> NaN"
  by (auto simp: admitted_def dest: jgt_not_NaN)

text \<open>
  C2, as the code has it. A successful \<open>addCodeSoul\<close> returns the new soul, and only
  the soul. It stores the soul under its identifier, and it records under the same
  identifier the connections admitted for this insertion: the same connections as the
  corpus enumeration admits, in descending order of similarity, those of equal similarity
  in the order of the enumeration.
\<close>

theorem addCodeSoul_records_sorted_connections:
  assumes "hasher c = Inr result"
  shows "(let soul = make_soul e result now c ident src;
              e' = snd (addCodeSoul hasher now c ident src e)
          in fst (addCodeSoul hasher now c ident src e) = Inr soul
             \<and> map_of (souls e') (soul_id soul) = Some soul
             \<and> (\<exists>cs. map_of (connections e') (soul_id soul) = Some cs
                   \<and> mset cs = mset (admitted soul (souls e'))
                   \<and> sorted_wrt (\<lambda>a b. jge (similarity a) (similarity b)) cs
                   \<and> (\<forall>v. filter (\<lambda>x. similarity x = v) cs
                          = filter (\<lambda>x. similarity x = v) (admitted soul (souls e')))))"
proof -
  define soul where "soul = make_soul e result now c ident src"
  define e1 where "e1 = e\<lparr>souls := AList.update (soul_id soul) soul (souls e)\<rparr>"
  define cs where "cs = fst (findWormholes soul e1)"
  have run: "addCodeSoul hasher now c ident src e = (Inr soul, snd (findWormholes soul e1))"
    using assms by (simp add: addCodeSoul_Inr soul_def e1_def)
  have souls': "souls (snd (findWormholes soul e1)) = AList.update (soul_id soul) soul (souls e)"
    by (simp add: e1_def)
  have cs_eq: "cs = Array_sort (\<lambda>a b. jsub (similarity b) (similarity a))
                      (admitted soul (AList.update (soul_id soul) soul (souls e)))"
    by (simp add: cs_def fst_findWormholes e1_def)
  have 1: "map_of (souls (snd (findWormholes soul e1))) (soul_id soul) = Some soul"
    by (simp add: e1_def update_conv')
  have 2: "map_of (connections (snd (findWormholes soul e1))) (soul_id soul) = Some cs"
    by (simp add: connections_findWormholes update_conv' cs_def)
  have 3: "mset cs = mset (admitted soul (souls (snd (findWormholes soul e1))))"
    by (simp add: cs_eq e1_def mset_Array_sort)
  have 4: "sorted_wrt (\<lambda>a b. jge (similarity a) (similarity b)) cs"
    unfolding cs_eq by (rule sorted_Array_sort_similarity) (rule admitted_not_NaN)
  have 5: "\<forall>v. filter (\<lambda>x. similarity x = v) cs
      = filter (\<lambda>x. similarity x = v) (admitted soul (souls (snd (findWormholes soul e1))))"
    by (simp add: cs_eq e1_def filter_Array_sort_similarity)
  show ?thesis
    unfolding Let_def soul_def [symmetric] run fst_conv snd_conv
    using 1 2 3 4 5 by blast
qed

theorem addCodeSoul_records_sorted_connections_witness:
  "example_hasher ''b'' = Inr \<lparr>phash = ''b'', eigenTop = [Num 1]\<rparr>
   \<and> fst (addCodeSoul example_hasher 20 ''b'' None None example_engine_a)
       = Inr (example_soul ''b'' 20)
   \<and> map_of (souls example_engine) ''b'' = Some (example_soul ''b'' 20)
   \<and> map_of (connections example_engine) ''b'' = Some [example_connection]
   \<and> admitted (example_soul ''b'' 20) (souls example_engine) = [example_connection]
   \<and> sorted_wrt (\<lambda>a b. jge (similarity a) (similarity b)) [example_connection]"
proof -
  have h: "example_hasher ''b'' = Inr \<lparr>phash = ''b'', eigenTop = [Num 1]\<rparr>"
    by (simp add: example_hasher_def)
  have s: "make_soul example_engine_a \<lparr>phash = ''b'', eigenTop = [Num 1]\<rparr> 20 ''b'' None None
      = example_soul ''b'' 20"
    by (simp add: make_soul_example example_engine_a_def)
  have a: "admitted (example_soul ''b'' 20) (souls example_engine) = [example_connection]"
    by (simp add: admitted_def example_engine_def example_connection_def [symmetric]
        similarity_example_connection)
  from h addCodeSoul_records_sorted_connections
    [of example_hasher "''b''" "\<lparr>phash = ''b'', eigenTop = [Num 1]\<rparr>" example_engine_a 20 None None]
  have "map_of (souls example_engine) ''b'' = Some (example_soul ''b'' 20)
      \<and> (\<exists>cs. map_of (connections example_engine) ''b'' = Some cs
            \<and> sorted_wrt (\<lambda>a b. jge (similarity a) (similarity b)) cs)"
    unfolding Let_def s example_add_b fst_conv snd_conv by auto
  moreover have "map_of (connections example_engine) ''b'' = Some [example_connection]"
    by (simp add: example_engine_def)
  ultimately show ?thesis
    using h a by (auto simp: example_add_b)
qed

text \<open>
  C2, as the spec states it, fails: the value \<open>addCodeSoul\<close> returns is the soul alone.
  The same call on two engines returns the same value while the connection lists it
  records differ, so the list is no part of what is returned.
\<close>

theorem addCodeSoul_returns_soul_only:
  "fst (addCodeSoul example_hasher 20 ''b'' None None WormholeEngine_new)
     = Inr (example_soul ''b'' 20)
   \<and> fst (addCodeSoul example_hasher 20 ''b'' None None example_engine_a)
     = Inr (example_soul ''b'' 20)
   \<and> map_of (connections (snd (addCodeSoul example_hasher 20 ''b'' None None WormholeEngine_new)))
        ''b'' = Some []
   \<and> map_of (connections (snd (addCodeSoul example_hasher 20 ''b'' None None example_engine_a)))
        ''b'' = Some [example_connection]"
  by (simp add: example_add_b)
     (simp add: addCodeSoul_def example_hasher_def Let_def make_soul_example
      WormholeEngine_new_def findWormholes_def example_engine_def)

section \<open>Degenerate vectors\<close>

lemma similarity_make_connection [simp]:
  "similarity (make_connection a b) = cosineSimilarity (vector a) (vector b)"
  by (simp add: make_connection_def Let_def)

lemma resonance_make_connection [simp]:
  "resonance (make_connection a b) = harmonicResonance (eigenvalues a) (eigenvalues b)"
  by (simp add: make_connection_def Let_def)

lemma foldl_jadd_zeros: "\<forall>x \<in> set xs. x = Num 0 \<Longrightarrow> foldl jadd (Num 0) xs = Num 0"
  by (induction xs) simp_all

lemma Vector_norm_zeros:
  assumes "\<forall>x \<in> set v. x = Num 0"
  shows "Vector_norm v = Num 0"
proof -
  have "\<forall>x \<in> set (map2 jmul v v). x = Num 0"
    using assms by (induction v) simp_all
  then have "Vector_dot v v = Num 0"
    unfolding Vector_dot_def by (rule foldl_jadd_zeros)
  then show ?thesis
    by (simp add: Vector_norm_def)
qed

lemma cosineSimilarity_zeros:
  "\<forall>x \<in> set v1. x = Num 0 \<Longrightarrow> cosineSimilarity v1 v2 = Num 0"
  "\<forall>x \<in> set v2. x = Num 0 \<Longrightarrow> cosineSimilarity v1 v2 = Num 0"
  by (simp_all add: cosineSimilarity_def Let_def Vector_norm_zeros)

lemma admitted_zeros:
  assumes "\<forall>x \<in> set (vector soul). x = Num 0"
  shows "admitted soul corpus = []"
  using assms by (simp add: admitted_def cosineSimilarity_zeros(1))








lemma example_add_zero:
  "addCodeSoul example_hasher 30 ''zero'' (Some ''b'') None example_engine =
     (Inr \<lparr>soul_id = ''b'', code = ''zero'', hash = ''zero'', eigenvalues = zero_vector,
           vector = zero_vector, timestamp = 30, source = None\<rparr>,
      snd (addCodeSoul example_hasher 30 ''zero'' (Some ''b'') None example_engine))"
  by (simp add: addCodeSoul_def example_hasher_def Let_def make_soul_def soulId_of_def
      normalize_example example_engine_def Vector_new_def)


section \<open>Reusing an identifier\<close>

lemma insert_step_other_id:
  assumes "call_id hasher call \<noteq> Some k"
  shows "map_of (connections (insert_step hasher e call)) k = map_of (connections e) k"
proof (cases call)
  case (fields now c ident src)
  show ?thesis
  proof (cases "hasher c")
    case (Inl err)
    then show ?thesis
      by (simp add: insert_step_def fields addCodeSoul_def)
  next
    case (Inr result)
    then have "soulId_of ident result \<noteq> k"
      using assms by (simp add: call_id_def fields)
    then have "soul_id (make_soul e result now c ident src) \<noteq> k"
      by (simp add: make_soul_def Let_def)
    then show ?thesis
      using Inr
      by (simp add: insert_step_def fields addCodeSoul_Inr connections_findWormholes
          update_conv')
  qed
qed

text \<open>
  C1, as the code has it. A connection list stays in the connection index, unchanged, for
  as long as no insert call stores under its identifier: a sequence of insert calls none
  of which uses the identifier \<open>k\<close> leaves the list recorded under \<open>k\<close> as it was, also
  when the calls overwrite items that the list's connections arrive at.
\<close>

theorem connections_kept_under_other_ids:
  assumes "Some k \<notin> set (map (call_id hasher) calls)"
  shows "map_of (connections (insert_all hasher e calls)) k = map_of (connections e) k"
  using assms
proof (induction calls rule: rev_induct)
  case Nil
  show ?case by simp
next
  case (snoc call calls)
  then have "call_id hasher call \<noteq> Some k"
    by auto
  then show ?case
    using snoc by (simp add: insert_all_snoc insert_step_other_id)
qed

theorem connections_kept_under_other_ids_witness:
  "Some ''b'' \<notin> set (map (call_id example_hasher) [(30, ''zero'', Some ''a'', None)])
   \<and> map_of (connections (insert_all example_hasher example_engine
                 [(30, ''zero'', Some ''a'', None)])) ''b'' = Some [example_connection]
   \<and> map_of (connections example_engine) ''b'' = Some [example_connection]"
proof -
  have 1: "Some ''b'' \<notin> set (map (call_id example_hasher) [(30, ''zero'', Some ''a'', None)])"
    by (simp add: call_id_def example_hasher_def soulId_of_def)
  have 2: "map_of (connections example_engine) ''b'' = Some [example_connection]"
    by (simp add: example_engine_def)
  from connections_kept_under_other_ids [OF 1, of example_engine] 1 2 show ?thesis
    by simp
qed

lemma example_reinsert_zero:
  "map_of (connections (snd (addCodeSoul example_hasher 30 ''zero'' (Some ''b'') None
     example_engine))) ''b'' = Some []"
proof -
  let ?z = "\<lparr>soul_id = ''b'', code = ''zero'', hash = ''zero'', eigenvalues = zero_vector,
           vector = zero_vector, timestamp = 30, source = None\<rparr>"
  have "\<forall>x \<in> set (vector ?z). x = Num 0"
    by (simp add: zero_vector_def)
  then have "admitted ?z corpus = []" for corpus
    by (rule admitted_zeros)
  then show ?thesis
    by (simp add: addCodeSoul_connections(1) [OF example_add_zero] update_conv'
        fst_findWormholes)
qed

text \<open>
  C1, as the spec states it, fails: an insert call under an identifier already in use
  replaces the list recorded under it. After the souls \<open>a\<close> and \<open>b\<close>, the list of \<open>b\<close>
  holds the connection from \<open>b\<close> to \<open>a\<close>; a third call that stores a soul of zeros
  under \<open>b\<close> leaves the empty list there.
\<close>

theorem reinsert_replaces_connection_list:
  "map_of (connections (insert_all example_hasher WormholeEngine_new example_calls)) ''b''
     = Some [example_connection]
   \<and> map_of (connections (insert_all example_hasher WormholeEngine_new
        (example_calls @ [(30, ''zero'', Some ''b'', None)]))) ''b'' = Some []"
  by (simp add: insert_all_snoc example_run insert_step_def example_reinsert_zero)
     (simp add: example_engine_def)

section \<open>Resonance of zero components\<close>

lemma harmonicResonance_unit: "harmonicResonance unit_vector unit_vector = NaN"
  by (simp add: harmonicResonance_def resonance_loop_NaN_coordinate [of 1] unit_vector_def)

text \<open>
  C5, at the inputs where the code leaves it. With no coordinate to compare, the sum 0 is
  divided by 0; where both eigenvalues of a coordinate are 0, the ratio is 0 / 0. Both
  are NaN, and NaN spreads to the result. The second case is what zero padding produces:
  the connection recorded for two souls of one eigenvalue each has resonance NaN.
\<close>

theorem harmonicResonance_not_a_number:
  "harmonicResonance [] [] = NaN
   \<and> harmonicResonance [Num 0] [Num 0] = NaN
   \<and> map_of (connections (insert_all example_hasher WormholeEngine_new example_calls)) ''b''
       = Some [example_connection]
   \<and> resonance example_connection = NaN
   \<and> \<not> is_finite (resonance example_connection)"
  by (simp add: harmonicResonance_empty harmonicResonance_zero_pair example_run
      example_connection_def example_soul_def harmonicResonance_unit is_finite_def)
     (simp add: example_engine_def example_connection_def example_soul_def)

end
